theory Spec2Isabelle
  imports Complex_Main "HOL-Library.Word"
begin

section \<open>The decode pipeline of pyzbar.py\<close>

text \<open>
  The module \<^verbatim>\<open>pyzbar/pyzbar.py\<close> drives the zbar scanning engine: it normalises an
  image to a byte buffer with a width and a height, checks the bits-per-pixel, creates a
  scanner and an image inside two context managers, configures the wanted symbol types,
  scans, walks the linked list of symbols and reduces the scan locations of each symbol to
  a bounding rectangle.
\<close>

subsection \<open>Results and errors\<close>

text \<open>\<^verbatim>\<open>Rect = namedtuple('Rect', ['left', 'top', 'width', 'height'])\<close>\<close>

record Rect =
  left :: int
  top :: int
  width :: int
  height :: int

type_synonym byte = "8 word"

text \<open>\<^verbatim>\<open>Decoded = namedtuple('Decoded', ['data', 'type', 'rect'])\<close>; the field
  \<^verbatim>\<open>type\<close> is the name of a member of the enumeration ZBarSymbol.\<close>

record Decoded =
  data :: "byte list"
  type :: string
  rect :: Rect

text \<open>
  The argument of a raised \<^verbatim>\<open>PyZbarError\<close> is either a string literal or the result of
  \<^verbatim>\<open>'...{0}...'.format(bpp)\<close>; the latter is kept as the template together with the
  number that is formatted into it.
\<close>

datatype message = Literal string | Format string rat

text \<open>
  The exceptions that leave the module: \<^verbatim>\<open>PyZbarError\<close>, which the module raises
  itself, and the two built-in exceptions that its arithmetic, \<^verbatim>\<open>min\<close>, \<^verbatim>\<open>max\<close>, the
  unpacking of a shape and the lookup of an enumeration member raise.
\<close>

datatype error = PyZbarError message | ZeroDivisionError | ValueError

fun is_PyZbarError :: "error \<Rightarrow> bool" where
  "is_PyZbarError (PyZbarError m) = True"
| "is_PyZbarError ZeroDivisionError = False"
| "is_PyZbarError ValueError = False"

subsection \<open>Bounding box of scan locations\<close>

text \<open>Python's \<^verbatim>\<open>min\<close> and \<^verbatim>\<open>max\<close> of a list: a left-to-right sweep that keeps the
  best value so far, and \<^verbatim>\<open>ValueError\<close> on the empty list.\<close>

fun py_min :: "int list \<Rightarrow> error + int" where
  "py_min [] = Inl ValueError"
| "py_min (v # vs) = Inr (fold min vs v)"

fun py_max :: "int list \<Rightarrow> error + int" where
  "py_max [] = Inl ValueError"
| "py_max (v # vs) = Inr (fold max vs v)"

text \<open>
  \<^verbatim>\<open>
  def bounding_box_of_locations(locations):
      x_values = list(map(itemgetter(0), locations))
      x_min, x_max = min(x_values), max(x_values)
      y_values = list(map(itemgetter(1), locations))
      y_min, y_max = min(y_values), max(y_values)
      return Rect(x_min, y_min, x_max - x_min,  y_max - y_min)
  \<close>
\<close>

definition bounding_box_of_locations :: "(int \<times> int) list \<Rightarrow> error + Rect" where
  "bounding_box_of_locations locations =
     (let x_values = map fst locations in
      case py_min x_values of Inl e \<Rightarrow> Inl e | Inr x_min \<Rightarrow>
      case py_max x_values of Inl e \<Rightarrow> Inl e | Inr x_max \<Rightarrow>
      let y_values = map snd locations in
      case py_min y_values of Inl e \<Rightarrow> Inl e | Inr y_min \<Rightarrow>
      case py_max y_values of Inl e \<Rightarrow> Inl e | Inr y_max \<Rightarrow>
      Inr \<lparr>left = x_min, top = y_min, width = x_max - x_min, height = y_max - y_min\<rparr>)"

subsection \<open>Image inputs\<close>

text \<open>
  \<^verbatim>\<open>decode\<close> accepts a \<^verbatim>\<open>PIL.Image\<close>, a \<^verbatim>\<open>numpy.ndarray\<close> or a tuple
  \<^verbatim>\<open>(pixels, width, height)\<close>, told apart by the name of the value's type. Of the first
  two only the attributes that \<^verbatim>\<open>decode\<close> reads are kept.
\<close>

record pil_image =
  im_mode :: string
  im_size :: "int \<times> int"
  im_tobytes :: "byte list"

record ndarray =
  nd_shape :: "int list"
  nd_dtype :: string
  nd_tobytes :: "byte list"

datatype image = PIL pil_image | Ndarray ndarray | Tuple "byte list" int int

subsection \<open>What the module imports\<close>

text \<open>
  The module \<^verbatim>\<open>wrapper\<close> with the enumerations and the bindings of the zbar library is
  not part of the sources at hand, and neither are PIL and numpy. The definitions below
  take as parameters:
  \<^item> \<^verbatim>\<open>ZBarSymbol\<close>: the members of the enumeration of symbol types, each with its name and
    its integer value;
  \<^item> \<^verbatim>\<open>set_iter\<close>: the order in which Python iterates over a set of symbol types (the
    language leaves it open). The definitions assume nothing about it; a statement that
    depends on the iteration yielding exactly the elements of the set says so;
  \<^item> \<^verbatim>\<open>convert_L\<close>: \<^verbatim>\<open>image.convert('L')\<close> of PIL;
  \<^item> \<^verbatim>\<open>first_channel\<close> and \<^verbatim>\<open>astype_uint8\<close>: \<^verbatim>\<open>image[:, :, 0]\<close> and
    \<^verbatim>\<open>image.astype('uint8')\<close> of numpy;
  \<^item> \<^verbatim>\<open>nearest_double\<close>: the rounding of an exact quotient to a floating-point number.
\<close>

record env =
  ZBarSymbol :: "(string \<times> int) list"
  set_iter :: "int set \<Rightarrow> int list"
  convert_L :: "pil_image \<Rightarrow> pil_image"
  first_channel :: "ndarray \<Rightarrow> ndarray"
  astype_uint8 :: "ndarray \<Rightarrow> ndarray"
  nearest_double :: "rat \<Rightarrow> rat"

text \<open>\<^verbatim>\<open>ZBarSymbol(value).name\<close>: the name of the first member with that value, and
  \<^verbatim>\<open>ValueError\<close> when there is none.\<close>

definition ZBarSymbol_name :: "env \<Rightarrow> int \<Rightarrow> error + string" where
  "ZBarSymbol_name env v =
     (case find (\<lambda>m. snd m = v) (ZBarSymbol env) of
        None \<Rightarrow> Inl ValueError
      | Some m \<Rightarrow> Inr (fst m))"

text \<open>Only one member of the enumeration \<^verbatim>\<open>ZBarConfig\<close> is used.\<close>

datatype ZBarConfig = CFG_ENABLE

text \<open>
  Handles of the engine are pointers; the null pointer is \<open>0\<close>, the only pointer that
  Python takes for false.
\<close>

type_synonym ptr = nat

text \<open>
  The engine is given by the answers of its primitives during one call of \<^verbatim>\<open>decode\<close>,
  each a function of the arguments of the call. \<^verbatim>\<open>string_at\<close> reads the bytes at a data
  pointer and \<^verbatim>\<open>contents_type\<close> reads \<^verbatim>\<open>symbol.contents.type\<close>. The primitives whose
  result \<^verbatim>\<open>decode\<close> ignores (destroy, set_config, set_format, set_size, set_data) have no
  field.
\<close>

record engine =
  zbar_image_scanner_create :: ptr
  zbar_image_create :: ptr
  zbar_scan_image :: "ptr \<Rightarrow> ptr \<Rightarrow> int"
  zbar_image_first_symbol :: "ptr \<Rightarrow> ptr"
  zbar_symbol_next :: "ptr \<Rightarrow> ptr"
  zbar_symbol_get_data :: "ptr \<Rightarrow> ptr"
  string_at :: "ptr \<Rightarrow> byte list"
  contents_type :: "ptr \<Rightarrow> int"
  zbar_symbol_get_loc_size :: "ptr \<Rightarrow> nat"
  zbar_symbol_get_loc_x :: "ptr \<Rightarrow> nat \<Rightarrow> int"
  zbar_symbol_get_loc_y :: "ptr \<Rightarrow> nat \<Rightarrow> int"

text \<open>
  Every call of a primitive of the engine is written to a log, in the order of the calls
  and with the arguments of the call.
\<close>

datatype call =
    Scanner_create
  | Scanner_destroy ptr
  | Scanner_set_config ptr int ZBarConfig int
  | Image_create
  | Image_destroy ptr
  | Image_set_format ptr int
  | Image_set_size ptr int int
  | Image_set_data ptr "byte list" nat
  | Scan_image ptr ptr
  | Image_first_symbol ptr
  | Symbol_next ptr
  | Symbol_get_data ptr
  | Symbol_get_loc_size ptr
  | Symbol_get_loc_x ptr nat
  | Symbol_get_loc_y ptr nat

text \<open>
  A computation returns its result or the exception it raises, together with the log;
  \<open>None\<close> stands for a computation that does not return.
\<close>

type_synonym 'a outcome = "((error + 'a) \<times> call list) option"

text \<open>\<^verbatim>\<open>FOURCC = {'L800': 808466521, 'GRAY': 1497715271}\<close>\<close>

definition FOURCC :: "string \<rightharpoonup> int" where
  "FOURCC = [''L800'' \<mapsto> 808466521, ''GRAY'' \<mapsto> 1497715271]"

subsection \<open>The context managers\<close>

text \<open>
  \<^verbatim>\<open>
  @contextmanager
  def zbar_image():
      image = zbar_image_create()
      if not image:
          raise PyZbarError('Could not create image')
      else:
          try:
              yield image
          finally:
              zbar_image_destroy(image)
  \<close>
  The body of the \<^verbatim>\<open>with\<close> statement is the argument \<open>body\<close>; it runs at the
  \<^verbatim>\<open>yield\<close>, and the \<^verbatim>\<open>finally\<close> clause runs whether the body returns or raises.
\<close>

definition zbar_image ::
  "engine \<Rightarrow> (ptr \<Rightarrow> call list \<Rightarrow> 'a outcome) \<Rightarrow> call list \<Rightarrow> 'a outcome" where
  "zbar_image eng body calls =
     (let img = zbar_image_create eng; calls = calls @ [Image_create] in
      if img = 0 then Some (Inl (PyZbarError (Literal ''Could not create image'')), calls)
      else case body img calls of
             None \<Rightarrow> None
           | Some (r, calls') \<Rightarrow> Some (r, calls' @ [Image_destroy img]))"

text \<open>\<^verbatim>\<open>zbar_image_scanner\<close> is the same with \<^verbatim>\<open>zbar_image_scanner_create\<close>,
  \<^verbatim>\<open>zbar_image_scanner_destroy\<close> and the message \<^verbatim>\<open>'Could not create decoder'\<close>.\<close>

definition zbar_image_scanner ::
  "engine \<Rightarrow> (ptr \<Rightarrow> call list \<Rightarrow> 'a outcome) \<Rightarrow> call list \<Rightarrow> 'a outcome" where
  "zbar_image_scanner eng body calls =
     (let scanner = zbar_image_scanner_create eng; calls = calls @ [Scanner_create] in
      if scanner = 0 then Some (Inl (PyZbarError (Literal ''Could not create decoder'')), calls)
      else case body scanner calls of
             None \<Rightarrow> None
           | Some (r, calls') \<Rightarrow> Some (r, calls' @ [Scanner_destroy scanner]))"

subsection \<open>Symbols of a scanned image\<close>

text \<open>
  The list comprehension of \<^verbatim>\<open>decode_symbols\<close>:
  \<^verbatim>\<open>
  locations = [
      (zbar_symbol_get_loc_x(symbol, index), zbar_symbol_get_loc_y(symbol, index))
      for index in RANGEFN(zbar_symbol_get_loc_size(symbol))
  ]
  \<close>
  with the calls it makes: the size once, then x and y for each index.
\<close>

definition symbol_locations :: "engine \<Rightarrow> ptr \<Rightarrow> (int \<times> int) list" where
  "symbol_locations eng symbol =
     map (\<lambda>index. (zbar_symbol_get_loc_x eng symbol index, zbar_symbol_get_loc_y eng symbol index))
       [0 ..< zbar_symbol_get_loc_size eng symbol]"

definition symbol_locations_calls :: "engine \<Rightarrow> ptr \<Rightarrow> call list" where
  "symbol_locations_calls eng symbol =
     Symbol_get_loc_size symbol #
     concat (map (\<lambda>index. [Symbol_get_loc_x symbol index, Symbol_get_loc_y symbol index])
       [0 ..< zbar_symbol_get_loc_size eng symbol])"

text \<open>
  The body of the loop of \<^verbatim>\<open>decode_symbols\<close>, for one symbol:
  \<^verbatim>\<open>
  data = string_at(zbar_symbol_get_data(symbol))
  symbol_type = ZBarSymbol(symbol.contents.type).name
  locations = [...]
  yield Decoded(data=data, type=symbol_type, rect=bounding_box_of_locations(locations))
  \<close>
\<close>

definition decode_symbol :: "env \<Rightarrow> engine \<Rightarrow> ptr \<Rightarrow> call list \<Rightarrow> (error + Decoded) \<times> call list" where
  "decode_symbol env eng symbol calls =
     (let bytes = string_at eng (zbar_symbol_get_data eng symbol);
          calls = calls @ [Symbol_get_data symbol] in
      case ZBarSymbol_name env (contents_type eng symbol) of
        Inl e \<Rightarrow> (Inl e, calls)
      | Inr symbol_type \<Rightarrow>
          let locations = symbol_locations eng symbol;
              calls = calls @ symbol_locations_calls eng symbol in
          case bounding_box_of_locations locations of
            Inl e \<Rightarrow> (Inl e, calls)
          | Inr r \<Rightarrow> (Inr \<lparr>data = bytes, type = symbol_type, rect = r\<rparr>, calls))"

text \<open>
  \<^verbatim>\<open>
  def symbols_for_image(image):
      symbol = zbar_image_first_symbol(image)
      while symbol:
          yield symbol
          symbol = zbar_symbol_next(symbol)

  def decode_symbols(symbols):
      for symbol in symbols:
          ...
          yield Decoded(...)
  \<close>
  Both are generators, and \<^verbatim>\<open>decode\<close> consumes
  \<^verbatim>\<open>decode_symbols(symbols_for_image(img))\<close> with \<^verbatim>\<open>results.extend\<close>: a symbol is decoded
  and appended to the results before the next symbol is asked for, and an exception in
  the body ends the walk. \<open>decode_symbols\<close> is this loop from the current symbol on; the
  list of symbols of the engine may be cyclic, so it need not return.
\<close>

partial_function (option) decode_symbols ::
  "env \<Rightarrow> engine \<Rightarrow> ptr \<Rightarrow> Decoded list \<Rightarrow> call list \<Rightarrow> (Decoded list) outcome" where
  "decode_symbols env eng symbol results calls =
     (if symbol = 0 then Some (Inr results, calls)
      else case decode_symbol env eng symbol calls of
             (Inl e, calls') \<Rightarrow> Some (Inl e, calls')
           | (Inr d, calls') \<Rightarrow>
               decode_symbols env eng (zbar_symbol_next eng symbol) (results @ [d])
                 (calls' @ [Symbol_next symbol]))"

declare decode_symbols.simps [code]

definition symbols_for_image :: "env \<Rightarrow> engine \<Rightarrow> ptr \<Rightarrow> Decoded list \<Rightarrow> call list \<Rightarrow> (Decoded list) outcome" where
  "symbols_for_image env eng img results calls =
     decode_symbols env eng (zbar_image_first_symbol eng img) results
       (calls @ [Image_first_symbol img])"

subsection \<open>decode\<close>

text \<open>
  The first part of \<^verbatim>\<open>decode\<close> brings the image to \<^verbatim>\<open>pixels\<close>, \<^verbatim>\<open>width\<close> and
  \<^verbatim>\<open>height\<close>:
  \<^verbatim>\<open>
  if 'PIL.' in str(type(image)):
      if 'L' != image.mode:
          image = image.convert('L')
      pixels = image.tobytes()
      width, height = image.size
  elif 'numpy.ndarray' in str(type(image)):
      if 3 == len(image.shape):
          image = image[:, :, 0]
      if 'uint8' != str(image.dtype):
          image = image.astype('uint8')
      pixels = image.tobytes()
      height, width = image.shape[:2]
  else:
      pixels, width, height = image
  \<close>
  Unpacking \<^verbatim>\<open>image.shape[:2]\<close> into two names raises \<^verbatim>\<open>ValueError\<close> when the shape
  has fewer than two entries.
\<close>

fun normalize :: "env \<Rightarrow> image \<Rightarrow> error + (byte list \<times> int \<times> int)" where
  "normalize env (PIL im) =
     (let im = (if ''L'' \<noteq> im_mode im then convert_L env im else im);
          pixels = im_tobytes im
      in Inr (pixels, fst (im_size im), snd (im_size im)))"
| "normalize env (Ndarray a) =
     (let a = (if 3 = length (nd_shape a) then first_channel env a else a);
          a = (if ''uint8'' \<noteq> nd_dtype a then astype_uint8 env a else a);
          pixels = nd_tobytes a
      in case take 2 (nd_shape a) of
           [h, w] \<Rightarrow> Inr (pixels, w, h)
         | _ \<Rightarrow> Inl ValueError)"
| "normalize env (Tuple pixels w h) = Inr (pixels, w, h)"

text \<open>
  Python's \<^verbatim>\<open>/\<close> on two integers is true division: it raises
  \<^verbatim>\<open>ZeroDivisionError\<close> for a divisor of zero and returns otherwise the double nearest
  to the exact quotient. A double is a rational number; the rounding of a rational to
  the nearest double is the parameter \<open>nearest_double\<close> of the environment. (Quotients
  beyond the range of a double, for which Python raises \<^verbatim>\<open>OverflowError\<close>, are left
  out.)
\<close>

definition py_truediv :: "env \<Rightarrow> int \<Rightarrow> int \<Rightarrow> error + rat" where
  "py_truediv env a b =
     (if b = 0 then Inl ZeroDivisionError else Inr (nearest_double env (of_int a / of_int b)))"

text \<open>
  The configuration of the scanner:
  \<^verbatim>\<open>
  if symbols:
      disable = set(ZBarSymbol).difference(symbols)
      for symbol in disable:
          zbar_image_scanner_set_config(scanner, symbol, ZBarConfig.CFG_ENABLE, 0)
      for symbol in symbols:
          zbar_image_scanner_set_config(scanner, symbol, ZBarConfig.CFG_ENABLE, 1)
  \<close>
  \<^verbatim>\<open>symbols\<close> is \<^verbatim>\<open>None\<close> or a sequence of symbol types; \<^verbatim>\<open>None\<close> and the empty
  sequence are false.
\<close>

definition configure :: "env \<Rightarrow> ptr \<Rightarrow> int list option \<Rightarrow> call list" where
  "configure env scanner symbols =
     (case symbols of
        None \<Rightarrow> []
      | Some wanted \<Rightarrow>
          if wanted = [] then []
          else
            let disable = set (map snd (ZBarSymbol env)) - set wanted in
            map (\<lambda>symbol. Scanner_set_config scanner symbol CFG_ENABLE 0) (set_iter env disable) @
            map (\<lambda>symbol. Scanner_set_config scanner symbol CFG_ENABLE 1) wanted)"

text \<open>
  \<^verbatim>\<open>
  bpp = 8 * len(pixels) / (width * height)
  if 8 != bpp:
      raise PyZbarError('Unsupported bits-per-pixel [{0}]'.format(bpp))

  results = []
  with zbar_image_scanner() as scanner:
      if symbols:
          ...
      with zbar_image() as img:
          zbar_image_set_format(img, FOURCC['L800'])
          zbar_image_set_size(img, width, height)
          zbar_image_set_data(img, cast(pixels, c_void_p), len(pixels), None)
          decoded = zbar_scan_image(scanner, img)
          if decoded < 0:
              raise PyZbarError('Unsupported image format')
          else:
              results.extend(decode_symbols(symbols_for_image(img)))

  return results
  \<close>
  \<open>scan\<close> is the body of the inner \<^verbatim>\<open>with\<close> statement. The parameter
  \<^verbatim>\<open>scan_locations\<close> of \<^verbatim>\<open>decode\<close> is never read and has no counterpart here.
\<close>

definition scan :: "env \<Rightarrow> engine \<Rightarrow> byte list \<Rightarrow> int \<Rightarrow> int \<Rightarrow> ptr \<Rightarrow> ptr \<Rightarrow> call list \<Rightarrow> (Decoded list) outcome" where
  "scan env eng pixels w h scanner img calls =
     (let calls = calls @ [Image_set_format img (the (FOURCC ''L800'')),
                           Image_set_size img w h,
                           Image_set_data img pixels (length pixels)];
          decoded = zbar_scan_image eng scanner img;
          calls = calls @ [Scan_image scanner img]
      in if decoded < 0 then Some (Inl (PyZbarError (Literal ''Unsupported image format'')), calls)
         else symbols_for_image env eng img [] calls)"

definition decode :: "env \<Rightarrow> engine \<Rightarrow> image \<Rightarrow> int list option \<Rightarrow> (Decoded list) outcome" where
  "decode env eng img symbols =
     (case normalize env img of
        Inl e \<Rightarrow> Some (Inl e, [])
      | Inr (pixels, w, h) \<Rightarrow>
          case py_truediv env (8 * int (length pixels)) (w * h) of
            Inl e \<Rightarrow> Some (Inl e, [])
          | Inr bpp \<Rightarrow>
              if 8 \<noteq> bpp
              then Some (Inl (PyZbarError (Format ''Unsupported bits-per-pixel [{0}]'' bpp)), [])
              else zbar_image_scanner eng
                     (\<lambda>scanner calls.
                        zbar_image eng (scan env eng pixels w h scanner)
                          (calls @ configure env scanner symbols))
                     [])"

subsection \<open>Vocabulary of the statements\<close>

text \<open>
  The rectangle as the specification words it: left and top are the least x and the least
  y, width and height are the greatest minus the least x and y.
\<close>

definition min_max_rect :: "(int \<times> int) list \<Rightarrow> Rect" where
  "min_max_rect locations =
     \<lparr>left = Min (fst ` set locations), top = Min (snd ` set locations),
      width = Max (fst ` set locations) - Min (fst ` set locations),
      height = Max (snd ` set locations) - Min (snd ` set locations)\<rparr>"

text \<open>Kinds of calls in a log.\<close>

fun is_symbol_call :: "call \<Rightarrow> bool" where
  "is_symbol_call (Symbol_next p) = True"
| "is_symbol_call (Symbol_get_data p) = True"
| "is_symbol_call (Symbol_get_loc_size p) = True"
| "is_symbol_call (Symbol_get_loc_x p i) = True"
| "is_symbol_call (Symbol_get_loc_y p i) = True"
| "is_symbol_call c = False"

fun is_set_config :: "call \<Rightarrow> bool" where
  "is_set_config (Scanner_set_config p s c v) = True"
| "is_set_config c = False"

fun is_destroy :: "call \<Rightarrow> bool" where
  "is_destroy (Image_destroy p) = True"
| "is_destroy (Scanner_destroy p) = True"
| "is_destroy c = False"

fun is_image_setup :: "call \<Rightarrow> bool" where
  "is_image_setup (Image_set_format p f) = True"
| "is_image_setup (Image_set_size p w h) = True"
| "is_image_setup (Image_set_data p bs n) = True"
| "is_image_setup c = False"

text \<open>
  The log of a call of \<^verbatim>\<open>decode\<close> that gets as far as the scan: the scanner is
  created and configured, the image is created, given its format, its size and its data,
  and scanned.
\<close>

definition calls_up_to_scan ::
  "env \<Rightarrow> engine \<Rightarrow> byte list \<Rightarrow> int \<Rightarrow> int \<Rightarrow> int list option \<Rightarrow> call list" where
  "calls_up_to_scan env eng pixels w h symbols =
     (let scanner = zbar_image_scanner_create eng; img = zbar_image_create eng in
      [Scanner_create] @ configure env scanner symbols @
      [Image_create, Image_set_format img 808466521, Image_set_size img w h,
       Image_set_data img pixels (length pixels), Scan_image scanner img])"

text \<open>
  What a walk over the symbols that starts with the results \<open>results\<close> and the log
  \<open>calls\<close> may end with: the log has grown by calls on symbols only; an exception is a
  \<^verbatim>\<open>ValueError\<close>; the results have grown by records whose rectangle is the rectangle of
  the scan locations of a symbol.
\<close>

definition walk_ok ::
  "engine \<Rightarrow> Decoded list \<Rightarrow> call list \<Rightarrow> (error + Decoded list) \<times> call list \<Rightarrow> bool" where
  "walk_ok eng results calls y \<longleftrightarrow>
     (\<exists>more. snd y = calls @ more \<and> list_all is_symbol_call more) \<and>
     (case fst y of
        Inl e \<Rightarrow> e = ValueError
      | Inr rs \<Rightarrow> \<exists>ds. rs = results @ ds \<and>
          list_all (\<lambda>d. \<exists>s. symbol_locations eng s \<noteq> [] \<and>
                          rect d = min_max_rect (symbol_locations eng s)) ds)"

subsection \<open>An environment and an engine to run the definitions on\<close>

text \<open>
  Four members of the enumeration, with the values zbar gives them. The iteration over a
  set of these values yields each of its elements once, in the order 0, 64, 128, 13, which
  is where CPython's hash table puts these four integers (so the complement of QRCODE
  is iterated as 0, 128, 13). The quotients of the examples below, 8 and 16, are
  doubles, so that no rounding takes place.
\<close>

definition env0 :: env where
  "env0 = \<lparr>ZBarSymbol = [(''NONE'', 0), (''EAN13'', 13), (''QRCODE'', 64), (''CODE128'', 128)],
           set_iter = (\<lambda>S. filter (\<lambda>v. v \<in> S) [0, 64, 128, 13]),
           convert_L = (\<lambda>im. im\<lparr>im_mode := ''L''\<rparr>),
           first_channel = (\<lambda>a. a\<lparr>nd_shape := take 2 (nd_shape a)\<rparr>),
           astype_uint8 = (\<lambda>a. a\<lparr>nd_dtype := ''uint8''\<rparr>),
           nearest_double = (\<lambda>q. q)\<rparr>"

text \<open>
  An engine that finds one QR code with the payload \<^verbatim>\<open>hi\<close> and the scan locations
  (10,10), (50,10), (50,30), (10,30).
\<close>

definition eng1 :: engine where
  "eng1 = \<lparr>zbar_image_scanner_create = 1,
            zbar_image_create = 2,
            zbar_scan_image = (\<lambda>scanner img. 1),
            zbar_image_first_symbol = (\<lambda>img. 3),
            zbar_symbol_next = (\<lambda>symbol. 0),
            zbar_symbol_get_data = (\<lambda>symbol. 4),
            string_at = (\<lambda>p. [104, 105]),
            contents_type = (\<lambda>symbol. 64),
            zbar_symbol_get_loc_size = (\<lambda>symbol. 4),
            zbar_symbol_get_loc_x = (\<lambda>symbol index. [10, 50, 50, 10] ! index),
            zbar_symbol_get_loc_y = (\<lambda>symbol index. [10, 10, 30, 30] ! index)\<rparr>"

text \<open>A grey image of three by two pixels, and the same buffer declared as three by one.\<close>

definition img6 :: image where
  "img6 = Tuple [0, 0, 0, 0, 0, 0] 3 2"

definition img6_16bpp :: image where
  "img6_16bpp = Tuple [0, 0, 0, 0, 0, 0] 3 1"

text \<open>Variations of the engine: the scan fails, a create primitive returns the null pointer,
  no symbol is found, the symbol has no scan locations.\<close>

definition eng_scan_fails :: engine where
  "eng_scan_fails = eng1\<lparr>zbar_scan_image := (\<lambda>scanner img. - 1)\<rparr>"

definition eng_no_scanner :: engine where
  "eng_no_scanner = eng1\<lparr>zbar_image_scanner_create := 0\<rparr>"

definition eng_no_image :: engine where
  "eng_no_image = eng1\<lparr>zbar_image_create := 0\<rparr>"

definition eng_no_symbol :: engine where
  "eng_no_symbol = eng1\<lparr>zbar_scan_image := (\<lambda>scanner img. 0), zbar_image_first_symbol := (\<lambda>img. 0)\<rparr>"


section \<open>Properties\<close>

subsection \<open>The sweeps compute the least and the greatest value\<close>

lemma py_min_Min:
  assumes "vs \<noteq> []"
  shows "py_min vs = Inr (Min (set vs))"
proof (cases vs)
  case Nil
  with assms show ?thesis by simp
next
  case (Cons v ws)
  then show ?thesis using Min.set_eq_fold [of v ws] by simp
qed

lemma py_max_Max:
  assumes "vs \<noteq> []"
  shows "py_max vs = Inr (Max (set vs))"
proof (cases vs)
  case Nil
  with assms show ?thesis by simp
next
  case (Cons v ws)
  then show ?thesis using Max.set_eq_fold [of v ws] by simp
qed

lemma bounding_box_nonempty:
  assumes "locations \<noteq> []"
  shows "bounding_box_of_locations locations = Inr (min_max_rect locations)"
  using assms
  by (simp add: bounding_box_of_locations_def min_max_rect_def py_min_Min py_max_Max)

lemma bounding_box_empty: "bounding_box_of_locations [] = Inl ValueError"
  by (simp add: bounding_box_of_locations_def)

lemma bounding_box_Inr:
  assumes "bounding_box_of_locations locations = Inr r"
  shows "locations \<noteq> [] \<and> r = min_max_rect locations"
proof (cases "locations = []")
  case True
  with assms show ?thesis by (simp add: bounding_box_empty)
next
  case False
  with assms show ?thesis by (simp add: bounding_box_nonempty)
qed

lemma Min_le_Max_image:
  assumes "locations \<noteq> []"
  shows "Min (f ` set locations) \<le> (Max (f ` set locations) :: int)"
proof -
  obtain p where p: "p \<in> set locations"
    using assms by (cases locations) auto
  have "Min (f ` set locations) \<le> f p"
    using p by (intro Min_le) simp_all
  also have "f p \<le> Max (f ` set locations)"
    using p by (intro Max_ge) simp_all
  finally show ?thesis .
qed

lemma min_max_rect_extent:
  assumes "locations \<noteq> []"
  shows "0 \<le> width (min_max_rect locations) \<and> 0 \<le> height (min_max_rect locations)"
  using Min_le_Max_image [OF assms, of fst] Min_le_Max_image [OF assms, of snd]
  by (simp add: min_max_rect_def)

subsection \<open>The walk over the symbols\<close>

lemma symbol_locations_calls_symbol: "list_all is_symbol_call (symbol_locations_calls eng symbol)"
  by (simp add: symbol_locations_calls_def list_all_iff)

lemma decode_symbol_cases:
  "(\<exists>more. decode_symbol env eng symbol calls = (Inl ValueError, calls @ more) \<and> list_all is_symbol_call more) \<or>
   (\<exists>more d. decode_symbol env eng symbol calls = (Inr d, calls @ more) \<and> list_all is_symbol_call more \<and>
       symbol_locations eng symbol \<noteq> [] \<and> rect d = min_max_rect (symbol_locations eng symbol))"
proof (cases "ZBarSymbol_name env (contents_type eng symbol)")
  case (Inl e)
  then have "e = ValueError"
    by (auto simp: ZBarSymbol_name_def split: option.splits)
  with Inl show ?thesis
    by (simp add: decode_symbol_def)
next
  case (Inr name)
  show ?thesis
  proof (cases "symbol_locations eng symbol = []")
    case True
    with Inr show ?thesis
      by (simp add: decode_symbol_def bounding_box_empty symbol_locations_calls_symbol)
  next
    case False
    with Inr show ?thesis
      by (simp add: decode_symbol_def bounding_box_nonempty symbol_locations_calls_symbol)
  qed
qed

lemma decode_symbols_walk:
  assumes "decode_symbols env eng symbol results calls = Some y"
  shows "walk_ok eng results calls y"
proof (rule decode_symbols.raw_induct
    [where P = "\<lambda>env eng symbol results calls y. walk_ok eng results calls y", OF _ assms])
  fix f env eng symbol results calls y
  assume IH: "\<And>env eng symbol results calls y.
      f env eng symbol results calls = Some y \<Longrightarrow> walk_ok eng results calls y"
    and body: "(if symbol = 0 then Some (Inr results, calls)
      else case decode_symbol env eng symbol calls of
             (Inl e, calls') \<Rightarrow> Some (Inl e, calls')
           | (Inr d, calls') \<Rightarrow>
               f env eng (zbar_symbol_next eng symbol) (results @ [d])
                 (calls' @ [Symbol_next symbol])) = Some y"
  show "walk_ok eng results calls y"
  proof (cases "symbol = 0")
    case True
    with body show ?thesis by (auto simp: walk_ok_def)
  next
    case False
    from decode_symbol_cases [of env eng symbol calls] show ?thesis
    proof (elim disjE exE conjE)
      fix more
      assume "decode_symbol env eng symbol calls = (Inl ValueError, calls @ more)"
        "list_all is_symbol_call more"
      with False body show ?thesis by (auto simp: walk_ok_def)
    next
      fix more d
      assume d: "decode_symbol env eng symbol calls = (Inr d, calls @ more)"
        "list_all is_symbol_call more"
        "symbol_locations eng symbol \<noteq> []"
        "rect d = min_max_rect (symbol_locations eng symbol)"
      with False body
      have "f env eng (zbar_symbol_next eng symbol) (results @ [d])
              ((calls @ more) @ [Symbol_next symbol]) = Some y"
        by simp
      then have "walk_ok eng (results @ [d]) ((calls @ more) @ [Symbol_next symbol]) y"
        by (rule IH)
      with d show ?thesis
        by (auto simp: walk_ok_def split: sum.splits)
    qed
  qed
qed


subsection \<open>The paths through decode\<close>

lemma FOURCC_L800: "the (FOURCC ''L800'') = 808466521"
  by (simp add: FOURCC_def)

lemma decode_bpp_mismatch:
  assumes "normalize env img = Inr (pixels, w, h)"
    and "py_truediv env (8 * int (length pixels)) (w * h) = Inr bpp"
    and "bpp \<noteq> 8"
  shows "decode env eng img symbols =
    Some (Inl (PyZbarError (Format ''Unsupported bits-per-pixel [{0}]'' bpp)), [])"
  using assms by (simp add: decode_def)

lemma decode_bpp_ok:
  assumes "normalize env img = Inr (pixels, w, h)"
    and "py_truediv env (8 * int (length pixels)) (w * h) = Inr 8"
  shows "decode env eng img symbols =
    zbar_image_scanner eng
      (\<lambda>scanner calls. zbar_image eng (scan env eng pixels w h scanner)
         (calls @ configure env scanner symbols)) []"
  using assms by (simp add: decode_def)

lemma decode_no_scanner:
  assumes "normalize env img = Inr (pixels, w, h)"
    and "py_truediv env (8 * int (length pixels)) (w * h) = Inr 8"
    and "zbar_image_scanner_create eng = 0"
  shows "decode env eng img symbols =
    Some (Inl (PyZbarError (Literal ''Could not create decoder'')), [Scanner_create])"
  using assms(3) by (simp add: decode_bpp_ok [OF assms(1,2)] zbar_image_scanner_def)

lemma decode_no_image:
  assumes "normalize env img = Inr (pixels, w, h)"
    and "py_truediv env (8 * int (length pixels)) (w * h) = Inr 8"
    and "zbar_image_scanner_create eng \<noteq> 0"
    and "zbar_image_create eng = 0"
  shows "decode env eng img symbols =
    Some (Inl (PyZbarError (Literal ''Could not create image'')),
      [Scanner_create] @ configure env (zbar_image_scanner_create eng) symbols @
      [Image_create, Scanner_destroy (zbar_image_scanner_create eng)])"
  using assms(3,4)
  by (simp add: decode_bpp_ok [OF assms(1,2)] zbar_image_scanner_def zbar_image_def Let_def)

lemma decode_scan_failed:
  assumes "normalize env img = Inr (pixels, w, h)"
    and "py_truediv env (8 * int (length pixels)) (w * h) = Inr 8"
    and "zbar_image_scanner_create eng \<noteq> 0"
    and "zbar_image_create eng \<noteq> 0"
    and "zbar_scan_image eng (zbar_image_scanner_create eng) (zbar_image_create eng) < 0"
  shows "decode env eng img symbols =
    Some (Inl (PyZbarError (Literal ''Unsupported image format'')),
      calls_up_to_scan env eng pixels w h symbols @
      [Image_destroy (zbar_image_create eng), Scanner_destroy (zbar_image_scanner_create eng)])"
  using assms(3,4,5)
  by (simp add: decode_bpp_ok [OF assms(1,2)] zbar_image_scanner_def zbar_image_def scan_def Let_def
      calls_up_to_scan_def FOURCC_L800)

lemma decode_scanned:
  assumes "normalize env img = Inr (pixels, w, h)"
    and "py_truediv env (8 * int (length pixels)) (w * h) = Inr 8"
    and "zbar_image_scanner_create eng \<noteq> 0"
    and "zbar_image_create eng \<noteq> 0"
    and "\<not> zbar_scan_image eng (zbar_image_scanner_create eng) (zbar_image_create eng) < 0"
  shows "decode env eng img symbols =
    (case decode_symbols env eng (zbar_image_first_symbol eng (zbar_image_create eng)) []
            (calls_up_to_scan env eng pixels w h symbols @
             [Image_first_symbol (zbar_image_create eng)]) of
       None \<Rightarrow> None
     | Some (r, calls) \<Rightarrow>
         Some (r, calls @ [Image_destroy (zbar_image_create eng),
                          Scanner_destroy (zbar_image_scanner_create eng)]))"
  using assms(3,4,5)
  by (simp add: decode_bpp_ok [OF assms(1,2)] zbar_image_scanner_def zbar_image_def scan_def Let_def
      calls_up_to_scan_def FOURCC_L800 symbols_for_image_def split: option.splits)


lemma decode_normalize_error:
  assumes "normalize env img = Inl e"
  shows "decode env eng img symbols = Some (Inl e, [])"
  using assms by (simp add: decode_def)

lemma decode_zero_division:
  assumes "normalize env img = Inr (pixels, w, h)"
    and "w * h = 0"
  shows "decode env eng img symbols = Some (Inl ZeroDivisionError, [])"
  using assms by (simp add: decode_def py_truediv_def)

lemma decode_paths:
  assumes ret: "decode env eng img symbols = Some (r, calls)"
  obtains
    (normalize_error) e where
      "normalize env img = Inl e" "r = Inl e" "calls = []"
  | (zero_division) pixels w h where
      "normalize env img = Inr (pixels, w, h)" "w * h = 0"
      "r = Inl ZeroDivisionError" "calls = []"
  | (bpp_mismatch) pixels w h bpp where
      "normalize env img = Inr (pixels, w, h)"
      "py_truediv env (8 * int (length pixels)) (w * h) = Inr bpp" "bpp \<noteq> 8"
      "r = Inl (PyZbarError (Format ''Unsupported bits-per-pixel [{0}]'' bpp))" "calls = []"
  | (no_scanner) pixels w h where
      "normalize env img = Inr (pixels, w, h)"
      "py_truediv env (8 * int (length pixels)) (w * h) = Inr 8"
      "zbar_image_scanner_create eng = 0"
      "r = Inl (PyZbarError (Literal ''Could not create decoder''))"
      "calls = [Scanner_create]"
  | (no_image) pixels w h where
      "normalize env img = Inr (pixels, w, h)"
      "py_truediv env (8 * int (length pixels)) (w * h) = Inr 8"
      "zbar_image_scanner_create eng \<noteq> 0" "zbar_image_create eng = 0"
      "r = Inl (PyZbarError (Literal ''Could not create image''))"
      "calls = [Scanner_create] @ configure env (zbar_image_scanner_create eng) symbols @
               [Image_create, Scanner_destroy (zbar_image_scanner_create eng)]"
  | (scan_failed) pixels w h where
      "normalize env img = Inr (pixels, w, h)"
      "py_truediv env (8 * int (length pixels)) (w * h) = Inr 8"
      "zbar_image_scanner_create eng \<noteq> 0" "zbar_image_create eng \<noteq> 0"
      "zbar_scan_image eng (zbar_image_scanner_create eng) (zbar_image_create eng) < 0"
      "r = Inl (PyZbarError (Literal ''Unsupported image format''))"
      "calls = calls_up_to_scan env eng pixels w h symbols @
               [Image_destroy (zbar_image_create eng),
                Scanner_destroy (zbar_image_scanner_create eng)]"
  | (scanned) pixels w h calls' where
      "normalize env img = Inr (pixels, w, h)"
      "py_truediv env (8 * int (length pixels)) (w * h) = Inr 8"
      "zbar_image_scanner_create eng \<noteq> 0" "zbar_image_create eng \<noteq> 0"
      "\<not> zbar_scan_image eng (zbar_image_scanner_create eng) (zbar_image_create eng) < 0"
      "decode_symbols env eng (zbar_image_first_symbol eng (zbar_image_create eng)) []
         (calls_up_to_scan env eng pixels w h symbols @
          [Image_first_symbol (zbar_image_create eng)]) = Some (r, calls')"
      "calls = calls' @ [Image_destroy (zbar_image_create eng),
                         Scanner_destroy (zbar_image_scanner_create eng)]"
proof (cases "normalize env img")
  case (Inl e)
  with ret normalize_error show ?thesis
    by (simp add: decode_normalize_error)
next
  case (Inr t)
  then obtain pixels w h where norm: "normalize env img = Inr (pixels, w, h)"
    by (cases t) auto
  show ?thesis
  proof (cases "w * h = 0")
    case True
    with ret norm zero_division show ?thesis
      by (simp add: decode_zero_division)
  next
    case False
    then obtain bpp where bpp: "py_truediv env (8 * int (length pixels)) (w * h) = Inr bpp"
      by (simp add: py_truediv_def)
    show ?thesis
    proof (cases "bpp = 8")
      case False
      with ret bpp_mismatch [OF norm bpp] show ?thesis
        by (simp add: decode_bpp_mismatch [OF norm bpp])
    next
      case True
      with bpp have ok: "py_truediv env (8 * int (length pixels)) (w * h) = Inr 8"
        by simp
      show ?thesis
      proof (cases "zbar_image_scanner_create eng = 0")
        case True
        with ret no_scanner [OF norm ok] show ?thesis
          by (simp add: decode_no_scanner [OF norm ok])
      next
        case sc: False
        show ?thesis
        proof (cases "zbar_image_create eng = 0")
          case True
          with ret no_image [OF norm ok sc] show ?thesis
            by (simp add: decode_no_image [OF norm ok sc])
        next
          case im: False
          show ?thesis
          proof (cases "zbar_scan_image eng (zbar_image_scanner_create eng) (zbar_image_create eng) < 0")
            case True
            with ret scan_failed [OF norm ok sc im] show ?thesis
              by (simp add: decode_scan_failed [OF norm ok sc im])
          next
            case False
            with ret scanned [OF norm ok sc im] show ?thesis
              by (auto simp add: decode_scanned [OF norm ok sc im] split: option.splits)
          qed
        qed
      qed
    qed
  qed
qed

subsection \<open>The configuration and the example inputs\<close>

lemma configure_set_config: "list_all is_set_config (configure env scanner symbols)"
  by (auto simp: configure_def list_all_iff Let_def split: option.splits)

lemma configure_no_destroy: "filter is_destroy (configure env scanner symbols) = []"
  by (auto simp: configure_def Let_def filter_empty_conv split: option.splits)

lemma configure_unfiltered:
  "symbols = None \<or> symbols = Some [] \<Longrightarrow> configure env scanner symbols = []"
  by (auto simp: configure_def)

lemma img6_normalize: "normalize env img6 = Inr ([0, 0, 0, 0, 0, 0], 3, 2)"
  by (simp add: img6_def)

lemma img6_bpp: "py_truediv env0 (8 * int (length [0::byte, 0, 0, 0, 0, 0])) (3 * 2) = Inr 8"
  by (simp add: py_truediv_def env0_def)

lemma img6_16bpp_normalize: "normalize env img6_16bpp = Inr ([0, 0, 0, 0, 0, 0], 3, 1)"
  by (simp add: img6_16bpp_def)

lemma img6_16bpp_bpp: "py_truediv env0 (8 * int (length [0::byte, 0, 0, 0, 0, 0])) (3 * 1) = Inr 16"
  by (simp add: py_truediv_def env0_def)

lemma symbol_calls_filtered:
  assumes "list_all is_symbol_call ms"
  shows "filter is_set_config ms = []" and "filter is_image_setup ms = []"
    and "Image_create \<notin> set ms" and "Scanner_create \<notin> set ms"
proof -
  have "\<not> is_set_config c \<and> \<not> is_image_setup c \<and> c \<noteq> Image_create \<and> c \<noteq> Scanner_create"
    if "is_symbol_call c" for c
    using that by (cases c) simp_all
  with assms show "filter is_set_config ms = []" and "filter is_image_setup ms = []"
    and "Image_create \<notin> set ms" and "Scanner_create \<notin> set ms"
    by (auto simp: list_all_iff filter_empty_conv)
qed

lemma config_calls_filtered:
  assumes "list_all is_set_config cs"
  shows "filter is_image_setup cs = []"
    and "Image_create \<notin> set cs" and "Scanner_create \<notin> set cs"
proof -
  have "\<not> is_image_setup c \<and> c \<noteq> Image_create \<and> c \<noteq> Scanner_create"
    if "is_set_config c" for c
    using that by (cases c) simp_all
  with assms show "filter is_image_setup cs = []"
    and "Image_create \<notin> set cs" and "Scanner_create \<notin> set cs"
    by (auto simp: list_all_iff filter_empty_conv)
qed

lemma configure_wanted:
  assumes "wanted \<noteq> []"
  shows "configure env scanner (Some wanted) =
    map (\<lambda>symbol. Scanner_set_config scanner symbol CFG_ENABLE 0)
      (set_iter env (set (map snd (ZBarSymbol env)) - set wanted)) @
    map (\<lambda>symbol. Scanner_set_config scanner symbol CFG_ENABLE 1) wanted"
  using assms by (simp add: configure_def)

lemma decode_unfiltered:
  assumes "decode env eng img symbols = Some (r, calls)"
    and none: "symbols = None \<or> symbols = Some []"
  shows "filter is_set_config calls = []"
proof -
  from assms(1) show "filter is_set_config calls = []"
  proof (cases rule: decode_paths)
    case (scanned pixels w h calls')
    from decode_symbols_walk [OF scanned(6)] obtain ms
      where "calls' = (calls_up_to_scan env eng pixels w h symbols @
          [Image_first_symbol (zbar_image_create eng)]) @ ms"
        and "list_all is_symbol_call ms"
      by (auto simp: walk_ok_def)
    with scanned(7) none show ?thesis
      by (simp add: calls_up_to_scan_def Let_def configure_unfiltered symbol_calls_filtered)
  qed (simp_all add: calls_up_to_scan_def Let_def configure_unfiltered [OF none])
qed

lemma decode_filtered:
  assumes "decode env eng img symbols = Some (r, calls)"
    and sym: "symbols = Some wanted" and wanted: "wanted \<noteq> []"
    and reached: "Scanner_create \<in> set calls" and sc: "zbar_image_scanner_create eng \<noteq> 0"
  shows "\<exists>rest.
          calls =
            Scanner_create #
            map (\<lambda>symbol. Scanner_set_config (zbar_image_scanner_create eng) symbol CFG_ENABLE 0)
              (set_iter env (set (map snd (ZBarSymbol env)) - set wanted)) @
            map (\<lambda>symbol. Scanner_set_config (zbar_image_scanner_create eng) symbol CFG_ENABLE 1)
              wanted @
            Image_create # rest \<and>
          filter is_set_config rest = []"
proof -
  let ?disable = "map (\<lambda>symbol. Scanner_set_config (zbar_image_scanner_create eng) symbol CFG_ENABLE 0)
              (set_iter env (set (map snd (ZBarSymbol env)) - set wanted))"
  let ?enable = "map (\<lambda>symbol. Scanner_set_config (zbar_image_scanner_create eng) symbol CFG_ENABLE 1)
              wanted"
  have config: "configure env (zbar_image_scanner_create eng) symbols = ?disable @ ?enable"
    using sym wanted by (simp add: configure_wanted)
  from assms(1) show "\<exists>rest. calls = Scanner_create # ?disable @ ?enable @ Image_create # rest \<and>
      filter is_set_config rest = []"
  proof (cases rule: decode_paths)
    case (normalize_error e)
    with reached show ?thesis by simp
  next
    case (zero_division pixels w h)
    with reached show ?thesis by simp
  next
    case (bpp_mismatch pixels w h bpp)
    with reached show ?thesis by simp
  next
    case (no_scanner pixels w h)
    with sc show ?thesis by simp
  next
    case (no_image pixels w h)
    then show ?thesis by (simp add: config)
  next
    case (scan_failed pixels w h)
    then show ?thesis by (simp add: config calls_up_to_scan_def Let_def)
  next
    case (scanned pixels w h calls')
    from decode_symbols_walk [OF scanned(6)] obtain ms
      where "calls' = (calls_up_to_scan env eng pixels w h symbols @
          [Image_first_symbol (zbar_image_create eng)]) @ ms"
        and "list_all is_symbol_call ms"
      by (auto simp: walk_ok_def)
    with scanned(7) show ?thesis
      by (simp add: config calls_up_to_scan_def Let_def symbol_calls_filtered)
  qed
qed


lemma filtered_config_sets:
  assumes "calls = Scanner_create # map (\<lambda>symbol. Scanner_set_config scanner symbol CFG_ENABLE 0) ds @
      map (\<lambda>symbol. Scanner_set_config scanner symbol CFG_ENABLE 1) wanted @ Image_create # rest"
    and "filter is_set_config rest = []"
  shows "{symbol. Scanner_set_config scanner symbol CFG_ENABLE 0 \<in> set calls} = set ds"
    and "{symbol. Scanner_set_config scanner symbol CFG_ENABLE 1 \<in> set calls} = set wanted"
proof -
  have "Scanner_set_config scanner symbol CFG_ENABLE v \<notin> set rest" for symbol v
    using assms(2) by (auto simp: filter_empty_conv)
  then show "{symbol. Scanner_set_config scanner symbol CFG_ENABLE 0 \<in> set calls} = set ds"
    and "{symbol. Scanner_set_config scanner symbol CFG_ENABLE 1 \<in> set calls} = set wanted"
    by (auto simp: assms(1))
qed

lemma run_unfiltered:
  "decode env0 eng_no_symbol img6 None =
     Some (Inr [],
       [Scanner_create, Image_create, Image_set_format 2 808466521, Image_set_size 2 3 2,
        Image_set_data 2 [0, 0, 0, 0, 0, 0] 6, Scan_image 1 2, Image_first_symbol 2,
        Image_destroy 2, Scanner_destroy 1])"
  by code_simp

lemma run_filtered:
  "decode env0 eng_no_symbol img6 (Some [64]) =
     Some (Inr [],
       [Scanner_create, Scanner_set_config 1 0 CFG_ENABLE 0, Scanner_set_config 1 128 CFG_ENABLE 0,
        Scanner_set_config 1 13 CFG_ENABLE 0, Scanner_set_config 1 64 CFG_ENABLE 1,
        Image_create, Image_set_format 2 808466521, Image_set_size 2 3 2,
        Image_set_data 2 [0, 0, 0, 0, 0, 0] 6, Scan_image 1 2, Image_first_symbol 2,
        Image_destroy 2, Scanner_destroy 1])"
  by code_simp

lemma env0_complement: "set_iter env0 (set (map snd (ZBarSymbol env0)) - set [64]) = [0, 128, 13]"
  by (simp add: env0_def)

lemma env0_iterates_complement:
  "set (set_iter env0 (set (map snd (ZBarSymbol env0)) - set [64])) =
   set (map snd (ZBarSymbol env0)) - set [64]"
  by (auto simp: env0_def)

lemma run_16bpp:
  "decode env0 eng1 img6_16bpp (Some [64]) =
     Some (Inl (PyZbarError (Format ''Unsupported bits-per-pixel [{0}]'' 16)), [])"
  by (simp add: decode_bpp_mismatch [OF img6_16bpp_normalize img6_16bpp_bpp])

lemma decode_unreached:
  assumes "decode env eng img symbols = Some (r, calls)"
    and "Scanner_create \<notin> set calls \<or> zbar_image_scanner_create eng = 0"
  shows "filter is_set_config calls = []"
  using assms(1)
proof (cases rule: decode_paths)
  case (no_image pixels w h)
  with assms(2) show ?thesis by simp
next
  case (scan_failed pixels w h)
  with assms(2) show ?thesis by (simp add: calls_up_to_scan_def Let_def)
next
  case (scanned pixels w h calls')
  from decode_symbols_walk [OF scanned(6)] obtain ms
    where "calls' = (calls_up_to_scan env eng pixels w h symbols @
        [Image_first_symbol (zbar_image_create eng)]) @ ms"
    by (auto simp: walk_ok_def)
  with scanned(3,7) assms(2) show ?thesis by (simp add: calls_up_to_scan_def Let_def)
qed simp_all



lemma calls_up_to_scan_setup:
  "filter is_image_setup (calls_up_to_scan env eng pixels w h symbols) =
     [Image_set_format (zbar_image_create eng) 808466521,
      Image_set_size (zbar_image_create eng) w h,
      Image_set_data (zbar_image_create eng) pixels (length pixels)]"
  by (simp add: calls_up_to_scan_def Let_def config_calls_filtered(1) [OF configure_set_config])

lemma decode_image_setup:
  assumes "decode env eng img symbols = Some (r, calls)"
    and "normalize env img = Inr (pixels, w, h)"
    and "Image_create \<in> set calls"
    and "zbar_image_create eng \<noteq> 0"
  shows "py_truediv env (8 * int (length pixels)) (w * h) = Inr 8 \<and>
    filter is_image_setup calls =
     [Image_set_format (zbar_image_create eng) 808466521,
      Image_set_size (zbar_image_create eng) w h,
      Image_set_data (zbar_image_create eng) pixels (length pixels)]"
  using assms(1)
proof (cases rule: decode_paths)
  case (normalize_error e)
  with assms(2) show ?thesis by simp
next
  case (zero_division pixels' w' h')
  with assms(3) show ?thesis by simp
next
  case (bpp_mismatch pixels' w' h' bpp)
  with assms(3) show ?thesis by simp
next
  case (no_scanner pixels' w' h')
  with assms(3) show ?thesis by simp
next
  case (no_image pixels' w' h')
  with assms(4) show ?thesis by simp
next
  case (scan_failed pixels' w' h')
  with assms(2) have same: "pixels' = pixels" "w' = w" "h' = h"
    by simp_all
  from scan_failed show ?thesis
    unfolding same by (simp add: calls_up_to_scan_setup)
next
  case (scanned pixels' w' h' calls')
  with assms(2) have same: "pixels' = pixels" "w' = w" "h' = h"
    by simp_all
  from decode_symbols_walk [OF scanned(6)] obtain ms
    where "calls' = (calls_up_to_scan env eng pixels' w' h' symbols @
        [Image_first_symbol (zbar_image_create eng)]) @ ms"
      and "list_all is_symbol_call ms"
    by (auto simp: walk_ok_def)
  with scanned show ?thesis
    unfolding same by (simp add: calls_up_to_scan_setup symbol_calls_filtered)
qed

lemma walk_error:
  assumes "decode_symbols env eng symbol results calls = Some (Inl e, calls')"
  shows "e = ValueError"
  using decode_symbols_walk [OF assms] by (simp add: walk_ok_def)

lemma normalize_raises_ValueError: "normalize env img = Inl e \<Longrightarrow> e = ValueError"
  by (cases img) (auto simp: Let_def split: list.splits)

lemma decode_PyZbarError:
  assumes "decode env eng img symbols = Some (Inl (PyZbarError m), calls)"
  shows "(\<exists>bpp. m = Format ''Unsupported bits-per-pixel [{0}]'' bpp) \<or>
    m = Literal ''Could not create decoder'' \<or> m = Literal ''Could not create image'' \<or>
    m = Literal ''Unsupported image format''"
  using assms
proof (cases rule: decode_paths)
  case (normalize_error e)
  then show ?thesis by (auto dest: normalize_raises_ValueError)
next
  case (scanned pixels w h calls')
  from walk_error [OF scanned(6)] show ?thesis by simp
qed simp_all

subsection \<open>The bounding box is the min/max rectangle\<close>



subsection \<open>The bits-per-pixel check comes before the engine\<close>

text \<open>
  Claim C2. When the bits-per-pixel that \<open>decode\<close> computes from the normalised image,
  \<open>8 * len(pixels) / (width * height)\<close>, is not 8, \<open>decode\<close> raises the
  \<^verbatim>\<open>PyZbarError\<close> whose message is formatted from that value, and the log of calls to the
  engine is empty: neither create primitive, nor any other primitive, has been called.
  A buffer of twice \<open>width * height\<close> bytes gives 16.
\<close>

theorem bpp_mismatch_raises_before_engine:
  assumes "normalize env img = Inr (pixels, w, h)"
    and "py_truediv env (8 * int (length pixels)) (w * h) = Inr bpp"
    and "bpp \<noteq> 8"
  shows "decode env eng img symbols =
    Some (Inl (PyZbarError (Format ''Unsupported bits-per-pixel [{0}]'' bpp)), [])"
  using assms by (rule decode_bpp_mismatch)

theorem bpp_mismatch_raises_before_engine_witness:
  "normalize env0 img6_16bpp = Inr ([0, 0, 0, 0, 0, 0], 3, 1) \<and>
   py_truediv env0 (8 * int (length [0::byte, 0, 0, 0, 0, 0])) (3 * 1) = Inr 16 \<and>
   (16::rat) \<noteq> 8 \<and>
   decode env0 eng1 img6_16bpp (Some [64]) =
     Some (Inl (PyZbarError (Format ''Unsupported bits-per-pixel [{0}]'' 16)), [])"
proof -
  have ne: "(16::rat) \<noteq> 8" by simp
  from bpp_mismatch_raises_before_engine [OF img6_16bpp_normalize [of env0] img6_16bpp_bpp ne,
      where eng = eng1 and symbols = "Some [64]"]
    img6_16bpp_normalize [of env0] img6_16bpp_bpp
  show ?thesis by simp
qed

subsection \<open>A failed scan releases the image and the scanner\<close>

text \<open>
  Claim C3. When the scanner and the image have been created and the scan returns a
  negative status, \<open>decode\<close> raises \<^verbatim>\<open>PyZbarError('Unsupported image format')\<close>, and
  the log ends with the destruction of the image and then of the scanner; no other destroy
  call is in the log, so each of the two is called exactly once.
\<close>

theorem scan_failure_destroys_image_and_scanner:
  assumes "normalize env img = Inr (pixels, w, h)"
    and "py_truediv env (8 * int (length pixels)) (w * h) = Inr 8"
    and "zbar_image_scanner_create eng \<noteq> 0"
    and "zbar_image_create eng \<noteq> 0"
    and "zbar_scan_image eng (zbar_image_scanner_create eng) (zbar_image_create eng) < 0"
  shows "\<exists>calls.
    decode env eng img symbols =
      Some (Inl (PyZbarError (Literal ''Unsupported image format'')),
            calls @ [Image_destroy (zbar_image_create eng),
                     Scanner_destroy (zbar_image_scanner_create eng)]) \<and>
    filter is_destroy calls = []"
proof (intro exI conjI)
  show "decode env eng img symbols =
      Some (Inl (PyZbarError (Literal ''Unsupported image format'')),
            calls_up_to_scan env eng pixels w h symbols @
            [Image_destroy (zbar_image_create eng),
             Scanner_destroy (zbar_image_scanner_create eng)])"
    using assms by (rule decode_scan_failed)
  show "filter is_destroy (calls_up_to_scan env eng pixels w h symbols) = []"
    by (simp add: calls_up_to_scan_def Let_def configure_no_destroy)
qed

theorem scan_failure_destroys_image_and_scanner_witness:
  "normalize env0 img6 = Inr ([0, 0, 0, 0, 0, 0], 3, 2) \<and>
   py_truediv env0 (8 * int (length [0::byte, 0, 0, 0, 0, 0])) (3 * 2) = Inr 8 \<and>
   zbar_image_scanner_create eng_scan_fails \<noteq> 0 \<and>
   zbar_image_create eng_scan_fails \<noteq> 0 \<and>
   zbar_scan_image eng_scan_fails (zbar_image_scanner_create eng_scan_fails)
     (zbar_image_create eng_scan_fails) < 0 \<and>
   (\<exists>calls.
      decode env0 eng_scan_fails img6 (Some [64]) =
        Some (Inl (PyZbarError (Literal ''Unsupported image format'')),
              calls @ [Image_destroy 2, Scanner_destroy 1]) \<and>
      filter is_destroy calls = [])"
proof -
  have sc: "zbar_image_scanner_create eng_scan_fails \<noteq> 0"
    and im: "zbar_image_create eng_scan_fails \<noteq> 0"
    and neg: "zbar_scan_image eng_scan_fails (zbar_image_scanner_create eng_scan_fails)
      (zbar_image_create eng_scan_fails) < 0"
    by (simp_all add: eng_scan_fails_def eng1_def)
  from scan_failure_destroys_image_and_scanner [OF img6_normalize [of env0] img6_bpp sc im neg,
      where symbols = "Some [64]"]
    img6_normalize [of env0] img6_bpp sc im neg
  show ?thesis by (simp add: eng_scan_fails_def eng1_def)
qed

subsection \<open>The configuration of the scanner\<close>

text \<open>
  Claim C4, as amended. For every call of \<open>decode\<close> that returns or raises: when the
  filter of symbol types is absent or empty, the log holds no configuration call. When
  the filter is not empty, the call has got as far as creating the scanner (the
  bits-per-pixel check has passed and the scanner is not null), and the iteration over
  the complement of the filter in \<^verbatim>\<open>ZBarSymbol\<close> yields exactly the elements of that
  complement (as the iteration over a Python set does), the log is the creation of the
  scanner, then the disable calls, then an enable call for each entry of the filter, then
  the creation of the image and the rest, which holds no configuration call; the symbol
  types with a disable call are exactly those of the complement, the symbol types with an
  enable call exactly those of the filter; so every type of the complement is disabled,
  no other type is, and every configuration call precedes the scan. When the call does
  not get as far as creating the scanner, or the scanner is null, the log holds no
  configuration call, whatever the filter.
\<close>

theorem configuration_precedes_scan:
  assumes "decode env eng img symbols = Some (r, calls)"
  shows "(symbols = None \<or> symbols = Some [] \<longrightarrow> filter is_set_config calls = []) \<and>
    (symbols = Some wanted \<and> wanted \<noteq> [] \<and> Scanner_create \<in> set calls \<and>
     zbar_image_scanner_create eng \<noteq> 0 \<and>
     set (set_iter env (set (map snd (ZBarSymbol env)) - set wanted)) =
       set (map snd (ZBarSymbol env)) - set wanted \<longrightarrow>
       (\<exists>rest.
          calls =
            Scanner_create #
            map (\<lambda>symbol. Scanner_set_config (zbar_image_scanner_create eng) symbol CFG_ENABLE 0)
              (set_iter env (set (map snd (ZBarSymbol env)) - set wanted)) @
            map (\<lambda>symbol. Scanner_set_config (zbar_image_scanner_create eng) symbol CFG_ENABLE 1)
              wanted @
            Image_create # rest \<and>
          filter is_set_config rest = []) \<and>
       {symbol. Scanner_set_config (zbar_image_scanner_create eng) symbol CFG_ENABLE 0 \<in> set calls} =
         set (map snd (ZBarSymbol env)) - set wanted \<and>
       {symbol. Scanner_set_config (zbar_image_scanner_create eng) symbol CFG_ENABLE 1 \<in> set calls} =
         set wanted) \<and>
    (Scanner_create \<notin> set calls \<or> zbar_image_scanner_create eng = 0 \<longrightarrow>
       filter is_set_config calls = [])"
proof (intro conjI impI)
  assume "symbols = None \<or> symbols = Some []"
  with assms show "filter is_set_config calls = []"
    by (rule decode_unfiltered)
next
  assume *: "symbols = Some wanted \<and> wanted \<noteq> [] \<and> Scanner_create \<in> set calls \<and>
     zbar_image_scanner_create eng \<noteq> 0 \<and>
     set (set_iter env (set (map snd (ZBarSymbol env)) - set wanted)) =
       set (map snd (ZBarSymbol env)) - set wanted"
  with assms show "\<exists>rest.
          calls =
            Scanner_create #
            map (\<lambda>symbol. Scanner_set_config (zbar_image_scanner_create eng) symbol CFG_ENABLE 0)
              (set_iter env (set (map snd (ZBarSymbol env)) - set wanted)) @
            map (\<lambda>symbol. Scanner_set_config (zbar_image_scanner_create eng) symbol CFG_ENABLE 1)
              wanted @
            Image_create # rest \<and>
          filter is_set_config rest = []"
    by (intro decode_filtered) simp_all
  then obtain rest where rest: "calls =
            Scanner_create #
            map (\<lambda>symbol. Scanner_set_config (zbar_image_scanner_create eng) symbol CFG_ENABLE 0)
              (set_iter env (set (map snd (ZBarSymbol env)) - set wanted)) @
            map (\<lambda>symbol. Scanner_set_config (zbar_image_scanner_create eng) symbol CFG_ENABLE 1)
              wanted @
            Image_create # rest" "filter is_set_config rest = []"
    by blast
  from * have iterates: "set (set_iter env (set (map snd (ZBarSymbol env)) - set wanted)) =
       set (map snd (ZBarSymbol env)) - set wanted"
    by simp
  from filtered_config_sets [OF rest]
  show "{symbol. Scanner_set_config (zbar_image_scanner_create eng) symbol CFG_ENABLE 0 \<in> set calls} =
         set (map snd (ZBarSymbol env)) - set wanted"
    and "{symbol. Scanner_set_config (zbar_image_scanner_create eng) symbol CFG_ENABLE 1 \<in> set calls} =
         set wanted"
    by (simp_all only: iterates)
next
  assume "Scanner_create \<notin> set calls \<or> zbar_image_scanner_create eng = 0"
  with assms show "filter is_set_config calls = []"
    by (rule decode_unreached)
qed

theorem configuration_precedes_scan_witness:
  "decode env0 eng_no_symbol img6 None =
     Some (Inr [],
       [Scanner_create, Image_create, Image_set_format 2 808466521, Image_set_size 2 3 2,
        Image_set_data 2 [0, 0, 0, 0, 0, 0] 6, Scan_image 1 2, Image_first_symbol 2,
        Image_destroy 2, Scanner_destroy 1]) \<and>
   filter is_set_config
       [Scanner_create, Image_create, Image_set_format 2 808466521, Image_set_size 2 3 2,
        Image_set_data 2 [0, 0, 0, 0, 0, 0] 6, Scan_image 1 2, Image_first_symbol 2,
        Image_destroy 2, Scanner_destroy 1] = [] \<and>
   decode env0 eng_no_symbol img6 (Some [64]) =
     Some (Inr [],
       [Scanner_create, Scanner_set_config 1 0 CFG_ENABLE 0, Scanner_set_config 1 128 CFG_ENABLE 0,
        Scanner_set_config 1 13 CFG_ENABLE 0, Scanner_set_config 1 64 CFG_ENABLE 1,
        Image_create, Image_set_format 2 808466521, Image_set_size 2 3 2,
        Image_set_data 2 [0, 0, 0, 0, 0, 0] 6, Scan_image 1 2, Image_first_symbol 2,
        Image_destroy 2, Scanner_destroy 1]) \<and>
   [64] \<noteq> ([] :: int list) \<and>
   Scanner_create \<in> set
       [Scanner_create, Scanner_set_config 1 0 CFG_ENABLE 0, Scanner_set_config 1 128 CFG_ENABLE 0,
        Scanner_set_config 1 13 CFG_ENABLE 0, Scanner_set_config 1 64 CFG_ENABLE 1,
        Image_create, Image_set_format 2 808466521, Image_set_size 2 3 2,
        Image_set_data 2 [0, 0, 0, 0, 0, 0] 6, Scan_image 1 2, Image_first_symbol 2,
        Image_destroy 2, Scanner_destroy 1] \<and>
   zbar_image_scanner_create eng_no_symbol \<noteq> 0 \<and>
   set (set_iter env0 (set (map snd (ZBarSymbol env0)) - set [64])) =
     set (map snd (ZBarSymbol env0)) - set [64] \<and>
   (\<exists>rest.
      [Scanner_create, Scanner_set_config 1 0 CFG_ENABLE 0, Scanner_set_config 1 128 CFG_ENABLE 0,
        Scanner_set_config 1 13 CFG_ENABLE 0, Scanner_set_config 1 64 CFG_ENABLE 1,
        Image_create, Image_set_format 2 808466521, Image_set_size 2 3 2,
        Image_set_data 2 [0, 0, 0, 0, 0, 0] 6, Scan_image 1 2, Image_first_symbol 2,
        Image_destroy 2, Scanner_destroy 1] =
      Scanner_create #
      map (\<lambda>symbol. Scanner_set_config 1 symbol CFG_ENABLE 0) [0, 128, 13] @
      map (\<lambda>symbol. Scanner_set_config 1 symbol CFG_ENABLE 1) [64] @
      Image_create # rest \<and>
      filter is_set_config rest = []) \<and>
   {symbol. Scanner_set_config (zbar_image_scanner_create eng_no_symbol) symbol CFG_ENABLE 0 \<in> set
       [Scanner_create, Scanner_set_config 1 0 CFG_ENABLE 0, Scanner_set_config 1 128 CFG_ENABLE 0,
        Scanner_set_config 1 13 CFG_ENABLE 0, Scanner_set_config 1 64 CFG_ENABLE 1,
        Image_create, Image_set_format 2 808466521, Image_set_size 2 3 2,
        Image_set_data 2 [0, 0, 0, 0, 0, 0] 6, Scan_image 1 2, Image_first_symbol 2,
        Image_destroy 2, Scanner_destroy 1]} =
     set (map snd (ZBarSymbol env0)) - set [64] \<and>
   {symbol. Scanner_set_config (zbar_image_scanner_create eng_no_symbol) symbol CFG_ENABLE 1 \<in> set
       [Scanner_create, Scanner_set_config 1 0 CFG_ENABLE 0, Scanner_set_config 1 128 CFG_ENABLE 0,
        Scanner_set_config 1 13 CFG_ENABLE 0, Scanner_set_config 1 64 CFG_ENABLE 1,
        Image_create, Image_set_format 2 808466521, Image_set_size 2 3 2,
        Image_set_data 2 [0, 0, 0, 0, 0, 0] 6, Scan_image 1 2, Image_first_symbol 2,
        Image_destroy 2, Scanner_destroy 1]} =
     set [64] \<and>
   set (map snd (ZBarSymbol env0)) - set [64] = {0, 13, 128} \<and>
   decode env0 eng1 img6_16bpp (Some [64]) =
     Some (Inl (PyZbarError (Format ''Unsupported bits-per-pixel [{0}]'' 16)), []) \<and>
   Scanner_create \<notin> set [] \<and>
   filter is_set_config [] = []"
proof -
  let ?log = "[Scanner_create, Scanner_set_config 1 0 CFG_ENABLE 0, Scanner_set_config 1 128 CFG_ENABLE 0,
        Scanner_set_config 1 13 CFG_ENABLE 0, Scanner_set_config 1 64 CFG_ENABLE 1,
        Image_create, Image_set_format 2 808466521, Image_set_size 2 3 2,
        Image_set_data 2 [0, 0, 0, 0, 0, 0] 6, Scan_image 1 2, Image_first_symbol 2,
        Image_destroy 2, Scanner_destroy 1]"
  have sc: "zbar_image_scanner_create eng_no_symbol = 1"
    by (simp add: eng_no_symbol_def eng1_def)
  have unfiltered: "filter is_set_config
       [Scanner_create, Image_create, Image_set_format 2 808466521, Image_set_size 2 3 2,
        Image_set_data 2 [0, 0, 0, 0, 0, 0] 6, Scan_image 1 2, Image_first_symbol 2,
        Image_destroy 2, Scanner_destroy 1] = []"
    using configuration_precedes_scan [OF run_unfiltered, of "[]"] by simp
  have reached: "Some [64] = Some [64] \<and> [64] \<noteq> ([] :: int list) \<and> Scanner_create \<in> set ?log \<and>
     zbar_image_scanner_create eng_no_symbol \<noteq> 0 \<and>
     set (set_iter env0 (set (map snd (ZBarSymbol env0)) - set [64])) =
       set (map snd (ZBarSymbol env0)) - set [64]"
    using env0_iterates_complement by (simp add: sc)
  note filtered =
    configuration_precedes_scan [OF run_filtered, of "[64]", THEN conjunct2, THEN conjunct1,
      THEN mp, OF reached]
  have shape: "\<exists>rest. ?log =
      Scanner_create #
      map (\<lambda>symbol. Scanner_set_config 1 symbol CFG_ENABLE 0) [0, 128, 13] @
      map (\<lambda>symbol. Scanner_set_config 1 symbol CFG_ENABLE 1) [64] @
      Image_create # rest \<and>
      filter is_set_config rest = []"
    using filtered [THEN conjunct1] by (simp add: sc env0_complement)
  have complement: "set (map snd (ZBarSymbol env0)) - set [64] = {0, 13, 128}"
    by (auto simp: env0_def)
  have unreached: "filter is_set_config [] = ([] :: call list)"
    using configuration_precedes_scan [OF run_16bpp, of "[64]"] by simp
  from run_unfiltered unfiltered run_filtered reached shape
    filtered [THEN conjunct2, THEN conjunct1] filtered [THEN conjunct2, THEN conjunct2]
    complement run_16bpp unreached
  show ?thesis
    by (intro conjI) simp_all
qed

text \<open>
  As the claim is stated, for every call of \<open>decode\<close>, it fails: a call with a buffer of
  16 bits per pixel and the filter QRCODE raises before the scanner exists, and issues
  no disable call for EAN13, which is in the complement of the filter.
\<close>

theorem configuration_counterexample:
  "decode env0 eng1 img6_16bpp (Some [64]) =
     Some (Inl (PyZbarError (Format ''Unsupported bits-per-pixel [{0}]'' 16)), []) \<and>
   13 \<in> set (map snd (ZBarSymbol env0)) - set [64] \<and>
   Scanner_set_config (zbar_image_scanner_create eng1) 13 CFG_ENABLE 0 \<notin> set []"
proof -
  have "decode env0 eng1 img6_16bpp (Some [64]) =
     Some (Inl (PyZbarError (Format ''Unsupported bits-per-pixel [{0}]'' 16)), [])"
    by (simp add: decode_bpp_mismatch [OF img6_16bpp_normalize img6_16bpp_bpp])
  moreover have "13 \<in> set (map snd (ZBarSymbol env0)) - set [64]"
    by (simp add: env0_def)
  ultimately show ?thesis by simp
qed

subsection \<open>A failed creation raises and destroys nothing that was not created\<close>

text \<open>
  Claim C5. In a run that reaches the create primitives: when the scanner is not created
  (null handle), \<open>decode\<close> raises \<^verbatim>\<open>PyZbarError('Could not create decoder')\<close> and the
  log holds the create call alone, so no destroy call; when the scanner is created and the
  image is not, \<open>decode\<close> raises \<^verbatim>\<open>PyZbarError('Could not create image')\<close> and the
  only destroy call in the log is that of the scanner, so the image is not destroyed.
\<close>

theorem creation_failure_raises_without_destroy:
  assumes "normalize env img = Inr (pixels, w, h)"
    and "py_truediv env (8 * int (length pixels)) (w * h) = Inr 8"
  shows "(zbar_image_scanner_create eng = 0 \<longrightarrow>
            decode env eng img symbols =
              Some (Inl (PyZbarError (Literal ''Could not create decoder'')), [Scanner_create])) \<and>
         (zbar_image_scanner_create eng \<noteq> 0 \<and> zbar_image_create eng = 0 \<longrightarrow>
            (\<exists>calls.
               decode env eng img symbols =
                 Some (Inl (PyZbarError (Literal ''Could not create image'')), calls) \<and>
               filter is_destroy calls = [Scanner_destroy (zbar_image_scanner_create eng)]))"
proof (intro conjI impI)
  assume "zbar_image_scanner_create eng = 0"
  with assms show "decode env eng img symbols =
      Some (Inl (PyZbarError (Literal ''Could not create decoder'')), [Scanner_create])"
    by (rule decode_no_scanner)
next
  assume "zbar_image_scanner_create eng \<noteq> 0 \<and> zbar_image_create eng = 0"
  then have sc: "zbar_image_scanner_create eng \<noteq> 0" and im: "zbar_image_create eng = 0"
    by simp_all
  show "\<exists>calls.
      decode env eng img symbols =
        Some (Inl (PyZbarError (Literal ''Could not create image'')), calls) \<and>
      filter is_destroy calls = [Scanner_destroy (zbar_image_scanner_create eng)]"
  proof (intro exI conjI)
    show "decode env eng img symbols =
        Some (Inl (PyZbarError (Literal ''Could not create image'')),
          [Scanner_create] @ configure env (zbar_image_scanner_create eng) symbols @
          [Image_create, Scanner_destroy (zbar_image_scanner_create eng)])"
      using assms sc im by (rule decode_no_image)
    show "filter is_destroy
        ([Scanner_create] @ configure env (zbar_image_scanner_create eng) symbols @
         [Image_create, Scanner_destroy (zbar_image_scanner_create eng)]) =
        [Scanner_destroy (zbar_image_scanner_create eng)]"
      by (simp add: configure_no_destroy)
  qed
qed

theorem creation_failure_raises_without_destroy_witness:
  "normalize env0 img6 = Inr ([0, 0, 0, 0, 0, 0], 3, 2) \<and>
   py_truediv env0 (8 * int (length [0::byte, 0, 0, 0, 0, 0])) (3 * 2) = Inr 8 \<and>
   zbar_image_scanner_create eng_no_scanner = 0 \<and>
   decode env0 eng_no_scanner img6 (Some [64]) =
     Some (Inl (PyZbarError (Literal ''Could not create decoder'')), [Scanner_create]) \<and>
   zbar_image_scanner_create eng_no_image \<noteq> 0 \<and>
   zbar_image_create eng_no_image = 0 \<and>
   (\<exists>calls.
      decode env0 eng_no_image img6 (Some [64]) =
        Some (Inl (PyZbarError (Literal ''Could not create image'')), calls) \<and>
      filter is_destroy calls = [Scanner_destroy 1])"
proof -
  have a: "zbar_image_scanner_create eng_no_scanner = 0"
    and b: "zbar_image_scanner_create eng_no_image \<noteq> 0"
    and c: "zbar_image_create eng_no_image = 0"
    by (simp_all add: eng_no_scanner_def eng_no_image_def eng1_def)
  from creation_failure_raises_without_destroy [OF img6_normalize [of env0] img6_bpp,
      where eng = eng_no_scanner and symbols = "Some [64]"]
    creation_failure_raises_without_destroy [OF img6_normalize [of env0] img6_bpp,
      where eng = eng_no_image and symbols = "Some [64]"]
    img6_normalize [of env0] img6_bpp a b c
  show ?thesis by (simp add: eng_no_image_def eng1_def)
qed

subsection \<open>No symbols, no results, no error\<close>

text \<open>
  Claim C6. When the scan returns a non-negative status and the first-symbol primitive
  returns the null pointer, \<open>decode\<close> returns the empty list of results (and releases
  the image and the scanner).
\<close>

theorem no_symbols_returns_empty:
  assumes "normalize env img = Inr (pixels, w, h)"
    and "py_truediv env (8 * int (length pixels)) (w * h) = Inr 8"
    and "zbar_image_scanner_create eng \<noteq> 0"
    and "zbar_image_create eng \<noteq> 0"
    and "0 \<le> zbar_scan_image eng (zbar_image_scanner_create eng) (zbar_image_create eng)"
    and "zbar_image_first_symbol eng (zbar_image_create eng) = 0"
  shows "decode env eng img symbols =
    Some (Inr [],
      calls_up_to_scan env eng pixels w h symbols @
      [Image_first_symbol (zbar_image_create eng), Image_destroy (zbar_image_create eng),
       Scanner_destroy (zbar_image_scanner_create eng)])"
proof -
  from assms(5)
  have "\<not> zbar_scan_image eng (zbar_image_scanner_create eng) (zbar_image_create eng) < 0"
    by simp
  from decode_scanned [OF assms(1-4) this] assms(6) show ?thesis
    by (simp add: decode_symbols.simps)
qed

theorem no_symbols_returns_empty_witness:
  "normalize env0 img6 = Inr ([0, 0, 0, 0, 0, 0], 3, 2) \<and>
   py_truediv env0 (8 * int (length [0::byte, 0, 0, 0, 0, 0])) (3 * 2) = Inr 8 \<and>
   zbar_image_scanner_create eng_no_symbol \<noteq> 0 \<and>
   zbar_image_create eng_no_symbol \<noteq> 0 \<and>
   0 \<le> zbar_scan_image eng_no_symbol (zbar_image_scanner_create eng_no_symbol)
     (zbar_image_create eng_no_symbol) \<and>
   zbar_image_first_symbol eng_no_symbol (zbar_image_create eng_no_symbol) = 0 \<and>
   decode env0 eng_no_symbol img6 None =
     Some (Inr [],
       [Scanner_create, Image_create, Image_set_format 2 808466521, Image_set_size 2 3 2,
        Image_set_data 2 [0, 0, 0, 0, 0, 0] 6, Scan_image 1 2, Image_first_symbol 2,
        Image_destroy 2, Scanner_destroy 1])"
proof -
  have sc: "zbar_image_scanner_create eng_no_symbol \<noteq> 0"
    and im: "zbar_image_create eng_no_symbol \<noteq> 0"
    and ok: "0 \<le> zbar_scan_image eng_no_symbol (zbar_image_scanner_create eng_no_symbol)
      (zbar_image_create eng_no_symbol)"
    and none: "zbar_image_first_symbol eng_no_symbol (zbar_image_create eng_no_symbol) = 0"
    by (simp_all add: eng_no_symbol_def eng1_def)
  from no_symbols_returns_empty [OF img6_normalize [of env0] img6_bpp sc im ok none,
      where symbols = None]
    img6_normalize [of env0] img6_bpp sc im ok none
  show ?thesis
    by (simp add: calls_up_to_scan_def configure_def eng_no_symbol_def eng1_def)
qed

subsection \<open>A symbol without scan locations\<close>




subsection \<open>A tuple is taken as it is\<close>

text \<open>
  Claim C8. For an image given as the tuple \<^verbatim>\<open>(pixels, width, height)\<close>, the
  normalisation returns the three components unchanged, whatever the conversions of PIL
  and numpy are; the bits-per-pixel check is made on them; and whenever the image of the
  engine is created, the calls that set it up are the format, the size with this width
  and height, and the data with these pixels and their length, and no others.
\<close>

theorem tuple_passes_through:
  "normalize env (Tuple pixels w h) = Inr (pixels, w, h) \<and>
   (py_truediv env (8 * int (length pixels)) (w * h) = Inr bpp \<and> bpp \<noteq> 8 \<longrightarrow>
      decode env eng (Tuple pixels w h) symbols =
        Some (Inl (PyZbarError (Format ''Unsupported bits-per-pixel [{0}]'' bpp)), [])) \<and>
   (decode env eng (Tuple pixels w h) symbols = Some (r, calls) \<and>
    Image_create \<in> set calls \<and> zbar_image_create eng \<noteq> 0 \<longrightarrow>
      py_truediv env (8 * int (length pixels)) (w * h) = Inr 8 \<and>
      filter is_image_setup calls =
        [Image_set_format (zbar_image_create eng) 808466521,
         Image_set_size (zbar_image_create eng) w h,
         Image_set_data (zbar_image_create eng) pixels (length pixels)])"
proof (intro conjI impI)
  show norm: "normalize env (Tuple pixels w h) = Inr (pixels, w, h)"
    by simp
  {
    assume "py_truediv env (8 * int (length pixels)) (w * h) = Inr bpp \<and> bpp \<noteq> 8"
    then show "decode env eng (Tuple pixels w h) symbols =
        Some (Inl (PyZbarError (Format ''Unsupported bits-per-pixel [{0}]'' bpp)), [])"
      by (intro decode_bpp_mismatch [OF norm]) simp_all
  }
  {
    assume *: "decode env eng (Tuple pixels w h) symbols = Some (r, calls) \<and>
      Image_create \<in> set calls \<and> zbar_image_create eng \<noteq> 0"
    then have "py_truediv env (8 * int (length pixels)) (w * h) = Inr 8 \<and>
      filter is_image_setup calls =
        [Image_set_format (zbar_image_create eng) 808466521,
         Image_set_size (zbar_image_create eng) w h,
         Image_set_data (zbar_image_create eng) pixels (length pixels)]"
      using decode_image_setup [OF _ norm, where eng = eng and symbols = symbols
          and r = r and calls = calls]
      by simp
    then show "py_truediv env (8 * int (length pixels)) (w * h) = Inr 8"
      and "filter is_image_setup calls =
        [Image_set_format (zbar_image_create eng) 808466521,
         Image_set_size (zbar_image_create eng) w h,
         Image_set_data (zbar_image_create eng) pixels (length pixels)]"
      by simp_all
  }
qed

theorem tuple_passes_through_witness:
  "normalize env0 (Tuple [0, 0, 0, 0, 0, 0] 3 2) = Inr ([0, 0, 0, 0, 0, 0], 3, 2) \<and>
   py_truediv env0 (8 * int (length [0::byte, 0, 0, 0, 0, 0])) (3 * 1) = Inr 16 \<and>
   (16::rat) \<noteq> 8 \<and>
   decode env0 eng_no_symbol (Tuple [0, 0, 0, 0, 0, 0] 3 1) None =
     Some (Inl (PyZbarError (Format ''Unsupported bits-per-pixel [{0}]'' 16)), []) \<and>
   decode env0 eng_no_symbol (Tuple [0, 0, 0, 0, 0, 0] 3 2) None =
     Some (Inr [],
       [Scanner_create, Image_create, Image_set_format 2 808466521, Image_set_size 2 3 2,
        Image_set_data 2 [0, 0, 0, 0, 0, 0] 6, Scan_image 1 2, Image_first_symbol 2,
        Image_destroy 2, Scanner_destroy 1]) \<and>
   zbar_image_create eng_no_symbol \<noteq> 0 \<and>
   py_truediv env0 (8 * int (length [0::byte, 0, 0, 0, 0, 0])) (3 * 2) = Inr 8 \<and>
   filter is_image_setup
       [Scanner_create, Image_create, Image_set_format 2 808466521, Image_set_size 2 3 2,
        Image_set_data 2 [0, 0, 0, 0, 0, 0] 6, Scan_image 1 2, Image_first_symbol 2,
        Image_destroy 2, Scanner_destroy 1] =
     [Image_set_format 2 808466521, Image_set_size 2 3 2, Image_set_data 2 [0, 0, 0, 0, 0, 0] 6]"
proof -
  have im: "zbar_image_create eng_no_symbol = 2"
    by (simp add: eng_no_symbol_def eng1_def)
  from tuple_passes_through [of env0 "[0, 0, 0, 0, 0, 0]" 3 1 16 eng_no_symbol None]
    tuple_passes_through [of env0 "[0, 0, 0, 0, 0, 0]" 3 2 16 eng_no_symbol None "Inr []"
       "[Scanner_create, Image_create, Image_set_format 2 808466521, Image_set_size 2 3 2,
        Image_set_data 2 [0, 0, 0, 0, 0, 0] 6, Scan_image 1 2, Image_first_symbol 2,
        Image_destroy 2, Scanner_destroy 1]"]
    run_unfiltered img6_16bpp_bpp
  show ?thesis
    by (simp add: im img6_def)
qed

subsection \<open>Rectangles have a non-negative extent\<close>

text \<open>
  Claim C9. Every rectangle that \<open>bounding_box_of_locations\<close> produces, which it does
  for every non-empty list of scan points, has a width and a height of at least zero.
\<close>

theorem rect_extent_nonnegative:
  assumes "locations \<noteq> []"
  shows "\<exists>r. bounding_box_of_locations locations = Inr r \<and> 0 \<le> width r \<and> 0 \<le> height r"
  using assms by (simp add: bounding_box_nonempty min_max_rect_extent)

theorem rect_extent_nonnegative_witness:
  "[(10, 10), (50, 10), (50, 30), (10, 30)] \<noteq> ([] :: (int \<times> int) list) \<and>
   (\<exists>r. bounding_box_of_locations [(10, 10), (50, 10), (50, 30), (10, 30)] = Inr r \<and>
        0 \<le> width r \<and> 0 \<le> height r)"
  using rect_extent_nonnegative [of "[(10, 10), (50, 10), (50, 30), (10, 30)]"] by simp

subsection \<open>One exception type\<close>

text \<open>
  Claim C10. Each of the four errors that \<open>decode\<close> raises itself, for a
  bits-per-pixel other than 8, for a scanner or an image that could not be created, and
  for a negative status of the scan, is a \<^verbatim>\<open>PyZbarError\<close>; the four differ in their
  messages only, which are pairwise distinct; and a \<^verbatim>\<open>PyZbarError\<close> that leaves
  \<open>decode\<close> is one of these four.
\<close>

theorem raised_errors_are_PyZbarError:
  assumes "normalize env img = Inr (pixels, w, h)"
    and "py_truediv env (8 * int (length pixels)) (w * h) = Inr bpp"
  shows "(bpp \<noteq> 8 \<longrightarrow>
      (\<exists>cs. decode env eng img symbols =
         Some (Inl (PyZbarError (Format ''Unsupported bits-per-pixel [{0}]'' bpp)), cs))) \<and>
    (bpp = 8 \<and> zbar_image_scanner_create eng = 0 \<longrightarrow>
      (\<exists>cs. decode env eng img symbols =
         Some (Inl (PyZbarError (Literal ''Could not create decoder'')), cs))) \<and>
    (bpp = 8 \<and> zbar_image_scanner_create eng \<noteq> 0 \<and> zbar_image_create eng = 0 \<longrightarrow>
      (\<exists>cs. decode env eng img symbols =
         Some (Inl (PyZbarError (Literal ''Could not create image'')), cs))) \<and>
    (bpp = 8 \<and> zbar_image_scanner_create eng \<noteq> 0 \<and> zbar_image_create eng \<noteq> 0 \<and>
     zbar_scan_image eng (zbar_image_scanner_create eng) (zbar_image_create eng) < 0 \<longrightarrow>
      (\<exists>cs. decode env eng img symbols =
         Some (Inl (PyZbarError (Literal ''Unsupported image format'')), cs))) \<and>
    distinct [Format ''Unsupported bits-per-pixel [{0}]'' bpp, Literal ''Could not create decoder'',
      Literal ''Could not create image'', Literal ''Unsupported image format''] \<and>
    (decode env eng img symbols = Some (Inl e, calls) \<and> is_PyZbarError e \<longrightarrow>
       e \<in> PyZbarError ` set [Format ''Unsupported bits-per-pixel [{0}]'' bpp,
         Literal ''Could not create decoder'', Literal ''Could not create image'',
         Literal ''Unsupported image format''])"
proof (intro conjI impI)
  assume "bpp \<noteq> 8"
  with assms show "\<exists>cs. decode env eng img symbols =
         Some (Inl (PyZbarError (Format ''Unsupported bits-per-pixel [{0}]'' bpp)), cs)"
    by (simp add: decode_bpp_mismatch)
next
  assume "bpp = 8 \<and> zbar_image_scanner_create eng = 0"
  with assms show "\<exists>cs. decode env eng img symbols =
         Some (Inl (PyZbarError (Literal ''Could not create decoder'')), cs)"
    by (simp add: decode_no_scanner)
next
  assume "bpp = 8 \<and> zbar_image_scanner_create eng \<noteq> 0 \<and> zbar_image_create eng = 0"
  with assms show "\<exists>cs. decode env eng img symbols =
         Some (Inl (PyZbarError (Literal ''Could not create image'')), cs)"
    by (simp add: decode_no_image)
next
  assume "bpp = 8 \<and> zbar_image_scanner_create eng \<noteq> 0 \<and> zbar_image_create eng \<noteq> 0 \<and>
     zbar_scan_image eng (zbar_image_scanner_create eng) (zbar_image_create eng) < 0"
  with assms show "\<exists>cs. decode env eng img symbols =
         Some (Inl (PyZbarError (Literal ''Unsupported image format'')), cs)"
    by (simp add: decode_scan_failed)
next
  show "distinct [Format ''Unsupported bits-per-pixel [{0}]'' bpp, Literal ''Could not create decoder'',
      Literal ''Could not create image'', Literal ''Unsupported image format'']"
    by simp
next
  assume *: "decode env eng img symbols = Some (Inl e, calls) \<and> is_PyZbarError e"
  then obtain m where m: "e = PyZbarError m"
    by (cases e) simp_all
  with * have ret: "decode env eng img symbols = Some (Inl (PyZbarError m), calls)"
    by simp
  have "m = Format ''Unsupported bits-per-pixel [{0}]'' bpp"
    if "m = Format ''Unsupported bits-per-pixel [{0}]'' b" for b
    using ret assms that
    by (cases rule: decode_paths) (auto dest: walk_error)
  with decode_PyZbarError [OF ret] m
  show "e \<in> PyZbarError ` set [Format ''Unsupported bits-per-pixel [{0}]'' bpp,
         Literal ''Could not create decoder'', Literal ''Could not create image'',
         Literal ''Unsupported image format'']"
    by auto
qed


theorem raised_errors_are_PyZbarError_witness:
  "normalize env0 img6_16bpp = Inr ([0, 0, 0, 0, 0, 0], 3, 1) \<and>
   py_truediv env0 (8 * int (length [0::byte, 0, 0, 0, 0, 0])) (3 * 1) = Inr 16 \<and>
   (16::rat) \<noteq> 8 \<and>
   (\<exists>cs. decode env0 eng1 img6_16bpp None =
      Some (Inl (PyZbarError (Format ''Unsupported bits-per-pixel [{0}]'' 16)), cs)) \<and>
   normalize env0 img6 = Inr ([0, 0, 0, 0, 0, 0], 3, 2) \<and>
   py_truediv env0 (8 * int (length [0::byte, 0, 0, 0, 0, 0])) (3 * 2) = Inr 8 \<and>
   zbar_image_scanner_create eng_no_scanner = 0 \<and>
   (\<exists>cs. decode env0 eng_no_scanner img6 None =
      Some (Inl (PyZbarError (Literal ''Could not create decoder'')), cs)) \<and>
   zbar_image_scanner_create eng_no_image \<noteq> 0 \<and>
   zbar_image_create eng_no_image = 0 \<and>
   (\<exists>cs. decode env0 eng_no_image img6 None =
      Some (Inl (PyZbarError (Literal ''Could not create image'')), cs)) \<and>
   zbar_image_scanner_create eng_scan_fails \<noteq> 0 \<and>
   zbar_image_create eng_scan_fails \<noteq> 0 \<and>
   zbar_scan_image eng_scan_fails (zbar_image_scanner_create eng_scan_fails)
     (zbar_image_create eng_scan_fails) < 0 \<and>
   (\<exists>cs. decode env0 eng_scan_fails img6 None =
      Some (Inl (PyZbarError (Literal ''Unsupported image format'')), cs)) \<and>
   decode env0 eng1 img6_16bpp None =
      Some (Inl (PyZbarError (Format ''Unsupported bits-per-pixel [{0}]'' 16)), []) \<and>
   is_PyZbarError (PyZbarError (Format ''Unsupported bits-per-pixel [{0}]'' 16)) \<and>
   PyZbarError (Format ''Unsupported bits-per-pixel [{0}]'' 16) \<in>
     PyZbarError ` set [Format ''Unsupported bits-per-pixel [{0}]'' 16,
       Literal ''Could not create decoder'', Literal ''Could not create image'',
       Literal ''Unsupported image format'']"
proof -
  have engines:
    "zbar_image_scanner_create eng_no_scanner = 0"
    "zbar_image_scanner_create eng_no_image \<noteq> 0"
    "zbar_image_create eng_no_image = 0"
    "zbar_image_scanner_create eng_scan_fails \<noteq> 0"
    "zbar_image_create eng_scan_fails \<noteq> 0"
    "zbar_scan_image eng_scan_fails (zbar_image_scanner_create eng_scan_fails)
       (zbar_image_create eng_scan_fails) < 0"
    by (simp_all add: eng_no_scanner_def eng_no_image_def eng_scan_fails_def eng1_def)
  have run: "decode env0 eng1 img6_16bpp None =
      Some (Inl (PyZbarError (Format ''Unsupported bits-per-pixel [{0}]'' 16)), [])"
    by (simp add: decode_bpp_mismatch [OF img6_16bpp_normalize img6_16bpp_bpp])
  from raised_errors_are_PyZbarError [OF img6_16bpp_normalize [of env0] img6_16bpp_bpp,
      where eng = eng1 and symbols = None
        and e = "PyZbarError (Format ''Unsupported bits-per-pixel [{0}]'' 16)" and calls = "[]"]
    raised_errors_are_PyZbarError [OF img6_normalize [of env0] img6_bpp,
      where eng = eng_no_scanner and symbols = None]
    raised_errors_are_PyZbarError [OF img6_normalize [of env0] img6_bpp,
      where eng = eng_no_image and symbols = None]
    raised_errors_are_PyZbarError [OF img6_normalize [of env0] img6_bpp,
      where eng = eng_scan_fails and symbols = None]
    engines run img6_16bpp_normalize [of env0] img6_16bpp_bpp img6_normalize [of env0] img6_bpp
  show ?thesis
    by simp
qed

end
